theory Spec2Isabelle
  imports Complex_Main
begin

section \<open>Python values, exceptions and the world outside app.py\<close>

text \<open>
  The session of app.py is a dictionary from string keys to Python values of several
  types: \<open>None\<close>, numbers, strings, lists of dictionaries and library objects. The
  responses of the two providers are parsed JSON, again Python values. One datatype covers
  them. A dictionary is an association list whose keys are pairwise distinct, read with
  \<open>map_of\<close>; an object is its class name with its attribute dictionary.

  Timestamps are Python floats; they are modelled as exact reals, so the rounding of
  \<open>current_time - last_sync_time\<close> is not part of the model.
\<close>

datatype pyval =
    PNone
  | PBool bool
  | PInt int
  | PFloat real
  | PStr string
  | PList "pyval list"
  | PDict "(string \<times> pyval) list"
  | PObj string "(string \<times> pyval) list"

text \<open>
  The exceptions that occur, all of them subclasses of \<open>Exception\<close>. \<open>HttpError\<close> is
  \<open>googleapiclient.errors.HttpError\<close>; \<open>OtherError\<close> stands for every other exception a
  library raises (a transport error of httplib2, a token refresh error, an exception of
  prawcore), with a text that identifies it. \<open>KeyError\<close> carries the key and
  \<open>AttributeError\<close> the attribute.
\<close>

datatype py_exception =
    HttpError string
  | KeyError string
  | TypeError
  | AttributeError string
  | OtherError string

text \<open>
  What a handler reads from outside app.py during one request: the clock, the conversions
  \<open>str()\<close> of the interpreter, and the outcome of each library call, which is an exception
  or a value.
  \<^item> \<open>time_now\<close>: \<open>time.time()\<close>.
  \<^item> \<open>str_value\<close>: \<open>str(v)\<close> for a value that is not a string (used by the f-strings).
  \<^item> \<open>str_exception\<close>: \<open>str(e)\<close>.
  \<^item> \<open>time_ctime\<close>: \<open>time.ctime(t)\<close>.
  \<^item> \<open>youtube_videos_list n\<close>:
    \<open>youtube_api.videos().list(part="snippet", myRating="like", maxResults=n).execute()\<close>.
  \<^item> \<open>reddit_saved n\<close>: the objects that iterating \<open>reddit.user.me().saved(limit=n)\<close>
    yields, each as (class name, attributes), or the exception raised on the way.
  \<^item> \<open>create_temp_file\<close>: \<open>create_temp_client_secret_file()\<close>, the name of the file.
  \<^item> \<open>youtube_fetch_token code\<close>: \<open>from_client_secrets_file\<close>, \<open>fetch_token(code=code)\<close>
    and \<open>flow.credentials.to_json()\<close>: the serialized credentials.
  \<^item> \<open>youtube_build\<close>: \<open>get_youtube_api(flow.credentials)\<close>.
  \<^item> \<open>reddit_authorize code\<close>: \<open>praw.Reddit(...)\<close>, \<open>reddit.auth.authorize(code)\<close> and
    \<open>reddit.__dict__\<close>: the entries of that dictionary.
\<close>

record runtime =
  time_now :: real
  str_value :: "pyval \<Rightarrow> string"
  str_exception :: "py_exception \<Rightarrow> string"
  time_ctime :: "real \<Rightarrow> py_exception + string"
  youtube_videos_list :: "nat \<Rightarrow> py_exception + pyval"
  reddit_saved :: "nat \<Rightarrow> py_exception + (string \<times> (string \<times> pyval) list) list"
  create_temp_file :: "py_exception + string"
  youtube_fetch_token :: "string \<Rightarrow> py_exception + string"
  youtube_build :: "py_exception + pyval"
  reddit_authorize :: "string \<Rightarrow> py_exception + (string \<times> pyval) list"

subsection \<open>Operations of the interpreter\<close>

text \<open>\<open>bool(v)\<close>: the truth value of a Python value.\<close>

fun truthy :: "pyval \<Rightarrow> bool" where
  "truthy PNone = False"
| "truthy (PBool b) = b"
| "truthy (PInt i) = (i \<noteq> 0)"
| "truthy (PFloat x) = (x \<noteq> 0)"
| "truthy (PStr s) = (s \<noteq> [])"
| "truthy (PList xs) = (xs \<noteq> [])"
| "truthy (PDict kvs) = (kvs \<noteq> [])"
| "truthy (PObj c attrs) = True"

text \<open>The number a value stands for in arithmetic and comparisons (\<open>bool\<close> is an \<open>int\<close>).\<close>

fun num_of :: "pyval \<Rightarrow> real option" where
  "num_of (PBool b) = Some (if b then 1 else 0)"
| "num_of (PInt i) = Some (of_int i)"
| "num_of (PFloat x) = Some x"
| "num_of v = None"

text \<open>\<open>x - v\<close> and \<open>x >= v\<close> for a float \<open>x\<close>: a \<open>TypeError\<close> unless \<open>v\<close> is a number.\<close>

definition float_sub :: "real \<Rightarrow> pyval \<Rightarrow> py_exception + real" where
  "float_sub x v = (case num_of v of None \<Rightarrow> Inl TypeError | Some y \<Rightarrow> Inr (x - y))"

definition float_ge :: "real \<Rightarrow> pyval \<Rightarrow> py_exception + bool" where
  "float_ge x v = (case num_of v of None \<Rightarrow> Inl TypeError | Some y \<Rightarrow> Inr (y \<le> x))"

text \<open>\<open>v[k]\<close> for a string key: a \<open>KeyError\<close> on a dictionary without the key, a
  \<open>TypeError\<close> on every value that is not a dictionary.\<close>

definition getitem :: "pyval \<Rightarrow> string \<Rightarrow> py_exception + pyval" where
  "getitem v k =
     (case v of
        PDict kvs \<Rightarrow> (case map_of kvs k of None \<Rightarrow> Inl (KeyError k) | Some x \<Rightarrow> Inr x)
      | _ \<Rightarrow> Inl TypeError)"

text \<open>\<open>v.get(k, d)\<close>: only a dictionary has the method.\<close>

definition dict_get :: "pyval \<Rightarrow> string \<Rightarrow> pyval \<Rightarrow> py_exception + pyval" where
  "dict_get v k d =
     (case v of
        PDict kvs \<Rightarrow> Inr (case map_of kvs k of None \<Rightarrow> d | Some x \<Rightarrow> x)
      | _ \<Rightarrow> Inl (AttributeError ''get''))"

text \<open>The elements \<open>for item in v\<close> runs through: those of a list, the keys of a
  dictionary, the characters of a string; a \<open>TypeError\<close> on anything else.\<close>

definition iterate :: "pyval \<Rightarrow> py_exception + pyval list" where
  "iterate v =
     (case v of
        PList xs \<Rightarrow> Inr xs
      | PDict kvs \<Rightarrow> Inr (map (\<lambda>kv. PStr (fst kv)) kvs)
      | PStr s \<Rightarrow> Inr (map (\<lambda>c. PStr [c]) s)
      | _ \<Rightarrow> Inl TypeError)"

text \<open>\<open>v.a\<close> for a data attribute \<open>a\<close>: an object carries its attributes. The function
  is applied to the saved items, which are objects, and to the value of \<open>item.subreddit\<close>
  with the attribute \<open>display_name\<close>, which no value of a built-in type has.\<close>

definition getattr :: "pyval \<Rightarrow> string \<Rightarrow> py_exception + pyval" where
  "getattr v a =
     (case v of
        PObj c attrs \<Rightarrow> (case map_of attrs a of None \<Rightarrow> Inl (AttributeError a) | Some x \<Rightarrow> Inr x)
      | _ \<Rightarrow> Inl (AttributeError a))"

text \<open>A replacement field \<open>{v}\<close> of an f-string: a string stands for itself.\<close>

definition format_value :: "runtime \<Rightarrow> pyval \<Rightarrow> string" where
  "format_value rt v = (case v of PStr s \<Rightarrow> s | _ \<Rightarrow> str_value rt v)"

text \<open>Sequencing of two steps of which the first may raise.\<close>

definition and_then :: "'e + 'a \<Rightarrow> ('a \<Rightarrow> 'e + 'b) \<Rightarrow> 'e + 'b" where
  "and_then m f = (case m of Inl e \<Rightarrow> Inl e | Inr x \<Rightarrow> f x)"

section \<open>Content fetchers\<close>

subsection \<open>fetch_youtube_saved_videos\<close>

text \<open>The dictionary appended for one item of the response; the three values are
  evaluated in the order of the source.\<close>

definition youtube_video :: "runtime \<Rightarrow> pyval \<Rightarrow> py_exception + pyval" where
  "youtube_video rt item =
     and_then (and_then (getitem item ''snippet'') (\<lambda>sn. getitem sn ''title'')) (\<lambda>title.
     and_then (getitem item ''id'') (\<lambda>vid.
     and_then (and_then (and_then (and_then (getitem item ''snippet'')
         (\<lambda>sn. getitem sn ''thumbnails''))
         (\<lambda>th. getitem th ''default''))
         (\<lambda>df. getitem df ''url'')) (\<lambda>thumbnail.
     Inr (PDict [(''title'', title),
                 (''url'', PStr (''https://www.youtube.com/watch?v='' @ format_value rt vid)),
                 (''thumbnail'', thumbnail)]))))"

text \<open>The \<open>for\<close> loop: \<open>videos\<close> is the list built so far.\<close>

fun youtube_loop :: "runtime \<Rightarrow> pyval list \<Rightarrow> pyval list \<Rightarrow> py_exception + pyval list" where
  "youtube_loop rt [] videos = Inr videos"
| "youtube_loop rt (item # items) videos =
     (case youtube_video rt item of
        Inl e \<Rightarrow> Inl e
      | Inr v \<Rightarrow> youtube_loop rt items (videos @ [v]))"

text \<open>The request: only the client object built by \<open>get_youtube_api\<close> (class
  \<open>Resource\<close>) has the method \<open>videos\<close>.\<close>

definition youtube_request :: "runtime \<Rightarrow> pyval \<Rightarrow> py_exception + pyval" where
  "youtube_request rt youtube_api =
     (case youtube_api of
        PObj c attrs \<Rightarrow>
          (if c = ''Resource'' then youtube_videos_list rt 10 else Inl (AttributeError ''videos''))
      | _ \<Rightarrow> Inl (AttributeError ''videos''))"

text \<open>The items the loop runs through: \<open>response.get("items", [])\<close>.\<close>

definition youtube_items :: "runtime \<Rightarrow> pyval \<Rightarrow> py_exception + pyval list" where
  "youtube_items rt youtube_api =
     and_then (youtube_request rt youtube_api) (\<lambda>response.
     and_then (dict_get response ''items'' (PList [])) iterate)"

text \<open>The body of the \<open>try\<close>, and the function: the handler catches \<open>HttpError\<close> and
  nothing else.\<close>

definition youtube_try :: "runtime \<Rightarrow> pyval \<Rightarrow> py_exception + pyval list" where
  "youtube_try rt youtube_api =
     and_then (youtube_items rt youtube_api) (\<lambda>items. youtube_loop rt items [])"

definition fetch_youtube_saved_videos :: "runtime \<Rightarrow> pyval \<Rightarrow> py_exception + pyval list" where
  "fetch_youtube_saved_videos rt youtube_api =
     (case youtube_try rt youtube_api of
        Inl (HttpError m) \<Rightarrow> Inr []
      | Inl e \<Rightarrow> Inl e
      | Inr videos \<Rightarrow> Inr videos)"

subsection \<open>fetch_reddit_saved_posts\<close>

definition hasattr :: "(string \<times> (string \<times> pyval) list) \<Rightarrow> string \<Rightarrow> bool" where
  "hasattr item a = (map_of (snd item) a \<noteq> None)"

definition reddit_post :: "runtime \<Rightarrow> (string \<times> (string \<times> pyval) list) \<Rightarrow> py_exception + pyval" where
  "reddit_post rt item =
     and_then (getattr (PObj (fst item) (snd item)) ''title'') (\<lambda>title.
     and_then (getattr (PObj (fst item) (snd item)) ''permalink'') (\<lambda>permalink.
     and_then (and_then (getattr (PObj (fst item) (snd item)) ''subreddit'')
         (\<lambda>sr. getattr sr ''display_name'')) (\<lambda>subreddit.
     Inr (PDict [(''title'', title),
                 (''url'', PStr (''https://reddit.com'' @ format_value rt permalink)),
                 (''subreddit'', subreddit)]))))"

fun reddit_loop ::
  "runtime \<Rightarrow> (string \<times> (string \<times> pyval) list) list \<Rightarrow> pyval list \<Rightarrow> py_exception + pyval list" where
  "reddit_loop rt [] saved_posts = Inr saved_posts"
| "reddit_loop rt (item # items) saved_posts =
     (if hasattr item ''title''
      then (case reddit_post rt item of
              Inl e \<Rightarrow> Inl e
            | Inr p \<Rightarrow> reddit_loop rt items (saved_posts @ [p]))
      else reddit_loop rt items saved_posts)"

text \<open>The listing: only a \<open>praw.Reddit\<close> instance has the attribute \<open>user\<close>.\<close>

definition reddit_items ::
  "runtime \<Rightarrow> pyval \<Rightarrow> py_exception + (string \<times> (string \<times> pyval) list) list" where
  "reddit_items rt reddit =
     (case reddit of
        PObj c attrs \<Rightarrow>
          (if c = ''Reddit'' then reddit_saved rt 10 else Inl (AttributeError ''user''))
      | _ \<Rightarrow> Inl (AttributeError ''user''))"

definition reddit_try :: "runtime \<Rightarrow> pyval \<Rightarrow> py_exception + pyval list" where
  "reddit_try rt reddit =
     and_then (reddit_items rt reddit) (\<lambda>items. reddit_loop rt items [])"

text \<open>The handler catches every \<open>Exception\<close>.\<close>

definition fetch_reddit_saved_posts :: "runtime \<Rightarrow> pyval \<Rightarrow> py_exception + pyval list" where
  "fetch_reddit_saved_posts rt reddit =
     (case reddit_try rt reddit of
        Inl e \<Rightarrow> Inr []
      | Inr saved_posts \<Rightarrow> Inr saved_posts)"

section \<open>Session, sync gate and routes\<close>

text \<open>
  The Flask session is a dictionary; a key may be missing. \<open>session.get(k)\<close> gives
  \<open>None\<close> for a missing key, \<open>session[k]\<close> raises \<open>KeyError\<close>.
\<close>

type_synonym session = "string \<rightharpoonup> pyval"

definition session_get :: "session \<Rightarrow> string \<Rightarrow> pyval" where
  "session_get s k = (case s k of None \<Rightarrow> PNone | Some v \<Rightarrow> v)"

definition session_item :: "session \<Rightarrow> string \<Rightarrow> py_exception + pyval" where
  "session_item s k = (case s k of None \<Rightarrow> Inl (KeyError k) | Some v \<Rightarrow> Inr v)"

text \<open>
  A handler returns or raises, leaves a session behind (an assignment made before an
  exception stays), and has called some of the fetchers and exchanges: the calls are
  logged in the order they are made.
\<close>

datatype event =
    Fetch_youtube
  | Fetch_reddit
  | Youtube_exchange string
  | Reddit_exchange string
  | Temp_file_created string
  | Temp_file_deleted string

type_synonym 'a outcome = "(py_exception + 'a) \<times> session \<times> event list"

subsection \<open>init_session\<close>

definition setdefault :: "string \<Rightarrow> pyval \<Rightarrow> session \<Rightarrow> session" where
  "setdefault k v s = (if s k = None then s(k \<mapsto> v) else s)"

definition init_session :: "session \<Rightarrow> session" where
  "init_session s =
     setdefault ''oauth_flow'' PNone
    (setdefault ''oauth_state'' PNone
    (setdefault ''sync_interval'' (PInt 60)
    (setdefault ''last_sync_time'' (PInt 0)
    (setdefault ''reddit_posts'' (PList [])
    (setdefault ''youtube_videos'' (PList [])
    (setdefault ''reddit'' PNone
    (setdefault ''youtube_api'' PNone
    (setdefault ''reddit_access_token'' PNone
    (setdefault ''youtube_credentials'' PNone s)))))))))"

subsection \<open>sync_content\<close>

text \<open>The condition of the \<open>if\<close>:
  \<open>current_time - session["last_sync_time"] >= session["sync_interval"]\<close>.\<close>

definition stale :: "runtime \<Rightarrow> session \<Rightarrow> py_exception + bool" where
  "stale rt s =
     and_then (session_item s ''last_sync_time'') (\<lambda>last.
     and_then (float_sub (time_now rt) last) (\<lambda>elapsed.
     and_then (session_item s ''sync_interval'') (\<lambda>interval.
     float_ge elapsed interval)))"

definition sync_youtube :: "runtime \<Rightarrow> session \<Rightarrow> unit outcome" where
  "sync_youtube rt s =
     (if truthy (session_get s ''youtube_api'')
      then (case session_item s ''youtube_api'' of
              Inl e \<Rightarrow> (Inl e, s, [])
            | Inr youtube_api \<Rightarrow>
                (case fetch_youtube_saved_videos rt youtube_api of
                   Inl e \<Rightarrow> (Inl e, s, [Fetch_youtube])
                 | Inr videos \<Rightarrow> (Inr (), s(''youtube_videos'' \<mapsto> PList videos), [Fetch_youtube])))
      else (Inr (), s, []))"

definition sync_reddit :: "runtime \<Rightarrow> session \<Rightarrow> unit outcome" where
  "sync_reddit rt s =
     (if truthy (session_get s ''reddit'')
      then (case session_item s ''reddit'' of
              Inl e \<Rightarrow> (Inl e, s, [])
            | Inr reddit \<Rightarrow>
                (case fetch_reddit_saved_posts rt reddit of
                   Inl e \<Rightarrow> (Inl e, s, [Fetch_reddit])
                 | Inr posts \<Rightarrow> (Inr (), s(''reddit_posts'' \<mapsto> PList posts), [Fetch_reddit])))
      else (Inr (), s, []))"

text \<open>The body of the \<open>if\<close>.\<close>

definition sync_now :: "runtime \<Rightarrow> session \<Rightarrow> unit outcome" where
  "sync_now rt s =
     (case sync_youtube rt s of
        (Inl e, s1, tr1) \<Rightarrow> (Inl e, s1, tr1)
      | (Inr u, s1, tr1) \<Rightarrow>
          (case sync_reddit rt s1 of
             (Inl e, s2, tr2) \<Rightarrow> (Inl e, s2, tr1 @ tr2)
           | (Inr u, s2, tr2) \<Rightarrow>
               (Inr (), s2(''last_sync_time'' \<mapsto> PFloat (time_now rt)), tr1 @ tr2)))"

definition sync_content :: "runtime \<Rightarrow> session \<Rightarrow> unit outcome" where
  "sync_content rt s =
     (case stale rt s of
        Inl e \<Rightarrow> (Inl e, s, [])
      | Inr b \<Rightarrow> (if b then sync_now rt s else (Inr (), s, [])))"

subsection \<open>Routes\<close>

text \<open>
  A view returns a redirect (\<open>redirect(url_for(endpoint))\<close>, kept as the endpoint), a
  string with a status code, or a rendered template (kept as the template's name with its
  arguments). \<open>request.args\<close> is a map from parameter names to strings.
\<close>

datatype response =
    Redirect string
  | Plain string nat
  | Rendered string "(string \<times> pyval) list"

text \<open>\<open>time.ctime(v)\<close>: \<open>None\<close> stands for the current time.\<close>

definition py_ctime :: "runtime \<Rightarrow> pyval \<Rightarrow> py_exception + string" where
  "py_ctime rt v =
     (case v of
        PNone \<Rightarrow> time_ctime rt (time_now rt)
      | _ \<Rightarrow> (case num_of v of None \<Rightarrow> Inl TypeError | Some x \<Rightarrow> time_ctime rt x))"

definition render_content :: "runtime \<Rightarrow> session \<Rightarrow> py_exception + response" where
  "render_content rt s =
     and_then (session_item s ''youtube_videos'') (\<lambda>videos.
     and_then (session_item s ''reddit_posts'') (\<lambda>posts.
     and_then (and_then (session_item s ''last_sync_time'') (py_ctime rt)) (\<lambda>shown.
     Inr (Rendered ''content.html''
            [(''youtube_videos'', videos), (''reddit_posts'', posts),
             (''last_sync_time'', PStr shown)]))))"

definition index :: "runtime \<Rightarrow> session \<Rightarrow> response outcome" where
  "index rt s =
     (case sync_content rt (init_session s) of
        (Inl e, s1, tr) \<Rightarrow> (Inl e, s1, tr)
      | (Inr u, s1, tr) \<Rightarrow>
          (if \<not> truthy (session_get s1 ''youtube_credentials'') \<and> \<not> truthy (session_get s1 ''reddit'')
           then (Inr (Redirect ''login''), s1, tr)
           else (render_content rt s1, s1, tr)))"

definition login :: "session \<Rightarrow> response outcome" where
  "login s = (Inr (Rendered ''login.html'' []), init_session s, [])"

text \<open>The part of \<open>youtube_callback\<close> inside \<open>try\<close>.\<close>

definition youtube_callback_try :: "runtime \<Rightarrow> string \<Rightarrow> session \<Rightarrow> response outcome" where
  "youtube_callback_try rt code s =
     (case youtube_fetch_token rt code of
        Inl e \<Rightarrow> (Inl e, s, [Youtube_exchange code])
      | Inr credentials \<Rightarrow>
          (case youtube_build rt of
             Inl e \<Rightarrow> (Inl e, s(''youtube_credentials'' \<mapsto> PStr credentials), [Youtube_exchange code])
           | Inr youtube_api \<Rightarrow>
               (case sync_content rt
                       (s(''youtube_credentials'' \<mapsto> PStr credentials, ''youtube_api'' \<mapsto> youtube_api)) of
                  (Inl e, s1, tr) \<Rightarrow> (Inl e, s1, Youtube_exchange code # tr)
                | (Inr u, s1, tr) \<Rightarrow> (Inr (Redirect ''index''), s1, Youtube_exchange code # tr))))"

definition youtube_callback :: "runtime \<Rightarrow> (string \<rightharpoonup> string) \<Rightarrow> session \<Rightarrow> response outcome" where
  "youtube_callback rt args s =
     (case args ''code'' of
        None \<Rightarrow> (Inr (Plain ''Error: Missing code or state parameter'' 400), s, [])
      | Some code \<Rightarrow>
          (case args ''state'' of
             None \<Rightarrow> (Inr (Plain ''Error: Missing code or state parameter'' 400), s, [])
           | Some state \<Rightarrow>
               (if session_get s ''oauth_state'' = PNone \<or> session_get s ''oauth_state'' \<noteq> PStr state
                then (Inr (Plain ''Error: OAuth state mismatch'' 400), s, [])
                else (case create_temp_file rt of
                        Inl e \<Rightarrow> (Inl e, s, [])
                      | Inr file \<Rightarrow>
                          (case youtube_callback_try rt code s of
                             (r, s1, tr) \<Rightarrow>
                               (r, s1, Temp_file_created file # tr @ [Temp_file_deleted file]))))))"

text \<open>The part of \<open>reddit_callback\<close> inside \<open>try\<close>, and the view with its handler.\<close>

definition reddit_callback_try :: "runtime \<Rightarrow> string \<Rightarrow> session \<Rightarrow> response outcome" where
  "reddit_callback_try rt code s =
     (case reddit_authorize rt code of
        Inl e \<Rightarrow> (Inl e, s, [Reddit_exchange code])
      | Inr entries \<Rightarrow>
          (case sync_content rt (s(''reddit'' \<mapsto> PDict entries)) of
             (Inl e, s1, tr) \<Rightarrow> (Inl e, s1, Reddit_exchange code # tr)
           | (Inr u, s1, tr) \<Rightarrow> (Inr (Redirect ''index''), s1, Reddit_exchange code # tr)))"

definition reddit_callback :: "runtime \<Rightarrow> (string \<rightharpoonup> string) \<Rightarrow> session \<Rightarrow> response outcome" where
  "reddit_callback rt args s =
     (case args ''code'' of
        None \<Rightarrow> (Inr (Plain ''Error: Missing code parameter'' 400), s, [])
      | Some code \<Rightarrow>
          (case reddit_callback_try rt code s of
             (Inl e, s1, tr) \<Rightarrow>
               (Inr (Plain (''Reddit login failed: '' @ str_exception rt e) 400), s1, tr)
           | (Inr r, s1, tr) \<Rightarrow> (Inr r, s1, tr)))"

definition logout_youtube :: "session \<Rightarrow> response outcome" where
  "logout_youtube s =
     (Inr (Redirect ''index''),
      s(''youtube_credentials'' \<mapsto> PNone, ''youtube_api'' \<mapsto> PNone, ''youtube_videos'' \<mapsto> PList []),
      [])"

definition logout_reddit :: "session \<Rightarrow> response outcome" where
  "logout_reddit s =
     (Inr (Redirect ''index''), s(''reddit'' \<mapsto> PNone, ''reddit_posts'' \<mapsto> PList []), [])"

definition sync :: "runtime \<Rightarrow> session \<Rightarrow> response outcome" where
  "sync rt s =
     (case sync_content rt (s(''last_sync_time'' \<mapsto> PInt 0)) of
        (Inl e, s1, tr) \<Rightarrow> (Inl e, s1, tr)
      | (Inr u, s1, tr) \<Rightarrow> (Inr (Redirect ''index''), s1, tr))"

section \<open>Concrete inputs\<close>

text \<open>Inputs at which the definitions are evaluated below. \<open>example_runtime\<close> is a
  request at time 1000 during which every library call succeeds and both providers answer
  with no item; the other runtimes change one field of it.\<close>

definition exception_text :: "py_exception \<Rightarrow> string" where
  "exception_text e =
     (case e of
        HttpError m \<Rightarrow> m
      | KeyError k \<Rightarrow> k
      | TypeError \<Rightarrow> ''TypeError''
      | AttributeError a \<Rightarrow> a
      | OtherError m \<Rightarrow> m)"

definition example_runtime :: runtime where
  "example_runtime =
     \<lparr>time_now = 1000,
      str_value = (\<lambda>v. ''None''),
      str_exception = exception_text,
      time_ctime = (\<lambda>t. Inr ''Thu Jan  1 00:16:40 1970''),
      youtube_videos_list = (\<lambda>n. Inr (PDict [(''items'', PList [])])),
      reddit_saved = (\<lambda>n. Inr []),
      create_temp_file = Inr ''/tmp/tmpsecret.json'',
      youtube_fetch_token = (\<lambda>code. Inr ''serialized credentials''),
      youtube_build = Inr (PObj ''Resource'' []),
      reddit_authorize = (\<lambda>code. Inr [(''config'', PNone)])\<rparr>"

definition youtube_client :: pyval where
  "youtube_client = PObj ''Resource'' []"

definition reddit_client :: pyval where
  "reddit_client = PObj ''Reddit'' []"

text \<open>A video resource as \<open>videos.list\<close> returns it, and one without thumbnails.\<close>

definition video_item :: "string \<Rightarrow> pyval" where
  "video_item i =
     PDict [(''id'', PStr i),
            (''snippet'', PDict [(''title'', PStr (''Video '' @ i)),
               (''thumbnails'', PDict [(''default'', PDict [(''url'', PStr (''https://i.ytimg.com/vi/'' @ i))])])])]"

definition video_record :: "string \<Rightarrow> pyval" where
  "video_record i =
     PDict [(''title'', PStr (''Video '' @ i)),
            (''url'', PStr (''https://www.youtube.com/watch?v='' @ i)),
            (''thumbnail'', PStr (''https://i.ytimg.com/vi/'' @ i))]"

definition bare_video_item :: pyval where
  "bare_video_item = PDict [(''id'', PStr ''v1''), (''snippet'', PDict [(''title'', PStr ''Untitled'')])]"

definition youtube_answers :: "(py_exception + pyval) \<Rightarrow> runtime" where
  "youtube_answers r = example_runtime\<lparr>youtube_videos_list := (\<lambda>n. r)\<rparr>"

definition missing_thumbnail_response :: pyval where
  "missing_thumbnail_response = PDict [(''items'', PList [video_item ''a'', bare_video_item])]"

text \<open>A saved submission and a saved comment as the Reddit listing yields them.\<close>

definition submission :: "string \<Rightarrow> string \<times> (string \<times> pyval) list" where
  "submission t =
     (''Submission'',
      [(''title'', PStr t), (''permalink'', PStr (''/r/python/comments/'' @ t)),
       (''subreddit'', PObj ''Subreddit'' [(''display_name'', PStr ''python'')])])"

definition comment :: "string \<times> (string \<times> pyval) list" where
  "comment =
     (''Comment'',
      [(''body'', PStr ''thanks''), (''permalink'', PStr ''/r/python/comments/c1''),
       (''subreddit'', PObj ''Subreddit'' [(''display_name'', PStr ''python'')])])"

definition mixed_listing :: "(string \<times> (string \<times> pyval) list) list" where
  "mixed_listing = [submission ''a'', comment, submission ''b'']"

definition post_record :: "string \<Rightarrow> pyval" where
  "post_record t =
     PDict [(''title'', PStr t), (''url'', PStr (''https://reddit.com/r/python/comments/'' @ t)),
            (''subreddit'', PStr ''python'')]"

text \<open>A request during which each provider answers with the first \<open>n\<close> of its items when
  asked for at most \<open>n\<close>.\<close>

definition limited_runtime :: runtime where
  "limited_runtime =
     example_runtime
       \<lparr>youtube_videos_list :=
          (\<lambda>n. Inr (PDict [(''items'', PList (take n [video_item ''a'', video_item ''b'']))])),
        reddit_saved := (\<lambda>n. Inr (take n mixed_listing))\<rparr>"

definition failing_exchange_runtime :: runtime where
  "failing_exchange_runtime =
     example_runtime\<lparr>reddit_authorize := (\<lambda>code. Inl (OtherError ''invalid_grant error processing request''))\<rparr>"

definition soon_runtime :: runtime where
  "soon_runtime = example_runtime\<lparr>time_now := 930\<rparr>"

text \<open>Sessions: after \<open>init_session\<close> alone, and with both providers logged in, the
  last sync at time 900.\<close>

definition new_session :: session where
  "new_session = init_session Map.empty"

definition both_session :: session where
  "both_session =
     new_session(''youtube_credentials'' \<mapsto> PStr ''serialized credentials'',
                 ''youtube_api'' \<mapsto> youtube_client,
                 ''reddit'' \<mapsto> PDict [(''config'', PNone)],
                 ''youtube_videos'' \<mapsto> PList [video_record ''old''],
                 ''last_sync_time'' \<mapsto> PFloat 900,
                 ''oauth_state'' \<mapsto> PStr ''abc'')"

section \<open>Auxiliary facts\<close>

lemmas value_defs =
  getitem_def dict_get_def iterate_def getattr_def format_value_def float_sub_def float_ge_def
  session_get_def session_item_def

lemmas fetch_defs =
  youtube_video_def youtube_request_def youtube_items_def youtube_try_def
  fetch_youtube_saved_videos_def hasattr_def reddit_post_def reddit_items_def reddit_try_def
  fetch_reddit_saved_posts_def

lemma and_then_simps [simp]:
  "and_then (Inl e) f = Inl e"
  "and_then (Inr x) f = f x"
  by (simp_all add: and_then_def)

lemma session_get_upd [simp]:
  "session_get (s(k \<mapsto> v)) k' = (if k' = k then v else session_get s k')"
  by (simp add: session_get_def)

lemma session_item_upd [simp]:
  "session_item (s(k \<mapsto> v)) k' = (if k' = k then Inr v else session_item s k')"
  by (simp add: session_item_def)

lemma session_item_truthy:
  "truthy (session_get s k) \<Longrightarrow> session_item s k = Inr (session_get s k)"
  by (cases "s k") (simp_all add: session_get_def session_item_def)

text \<open>The session \<open>init_session\<close> makes of an empty one, key by key.\<close>

lemma new_session_eq:
  "new_session =
     [''youtube_credentials'' \<mapsto> PNone, ''reddit_access_token'' \<mapsto> PNone,
      ''youtube_api'' \<mapsto> PNone, ''reddit'' \<mapsto> PNone, ''youtube_videos'' \<mapsto> PList [],
      ''reddit_posts'' \<mapsto> PList [], ''last_sync_time'' \<mapsto> PInt 0,
      ''sync_interval'' \<mapsto> PInt 60, ''oauth_state'' \<mapsto> PNone, ''oauth_flow'' \<mapsto> PNone]"
  by (simp add: new_session_def init_session_def setdefault_def)

lemma both_session_keys:
  "both_session ''youtube_api'' = Some (PObj ''Resource'' [])"
  "both_session ''reddit'' = Some (PDict [(''config'', PNone)])"
  "both_session ''last_sync_time'' = Some (PFloat 900)"
  "both_session ''sync_interval'' = Some (PInt 60)"
  "both_session ''oauth_state'' = Some (PStr ''abc'')"
  by (simp_all add: both_session_def new_session_eq youtube_client_def)

text \<open>The value of the gate's condition when both session entries are numbers.\<close>

lemma stale_eval:
  assumes "s ''last_sync_time'' = Some previous" and "num_of previous = Some t"
    and "s ''sync_interval'' = Some interval" and "num_of interval = Some d"
  shows "stale rt s = Inr (d \<le> time_now rt - t)"
  using assms by (simp add: stale_def session_item_def float_sub_def float_ge_def)

text \<open>What the stale branch does when the YouTube fetcher returns or is not called.\<close>

lemma sync_youtube_result:
  assumes "\<not> truthy (session_get s ''youtube_api'')
           \<or> fetch_youtube_saved_videos rt (session_get s ''youtube_api'') = Inr videos"
  shows "sync_youtube rt s =
           (Inr (),
            (if truthy (session_get s ''youtube_api'') then s(''youtube_videos'' \<mapsto> PList videos) else s),
            (if truthy (session_get s ''youtube_api'') then [Fetch_youtube] else []))"
  using assms by (auto simp add: sync_youtube_def session_item_truthy)

lemma sync_reddit_result:
  assumes "fetch_reddit_saved_posts rt (session_get s ''reddit'') = Inr posts"
  shows "sync_reddit rt s =
           (Inr (),
            (if truthy (session_get s ''reddit'') then s(''reddit_posts'' \<mapsto> PList posts) else s),
            (if truthy (session_get s ''reddit'') then [Fetch_reddit] else []))"
  using assms by (auto simp add: sync_reddit_def session_item_truthy)

lemma sync_now_result:
  assumes "\<not> truthy (session_get s ''youtube_api'')
           \<or> fetch_youtube_saved_videos rt (session_get s ''youtube_api'') = Inr videos"
    and "fetch_reddit_saved_posts rt (session_get s ''reddit'') = Inr posts"
  shows "sync_now rt s =
           (Inr (),
            (let s1 = (if truthy (session_get s ''youtube_api'')
                       then s(''youtube_videos'' \<mapsto> PList videos) else s);
                 s2 = (if truthy (session_get s ''reddit'')
                       then s1(''reddit_posts'' \<mapsto> PList posts) else s1)
             in s2(''last_sync_time'' \<mapsto> PFloat (time_now rt))),
            (if truthy (session_get s ''youtube_api'') then [Fetch_youtube] else [])
            @ (if truthy (session_get s ''reddit'') then [Fetch_reddit] else []))"
proof -
  let ?s1 = "if truthy (session_get s ''youtube_api'')
             then s(''youtube_videos'' \<mapsto> PList videos) else s"
  have get: "session_get ?s1 ''reddit'' = session_get s ''reddit''"
    by simp
  have "fetch_reddit_saved_posts rt (session_get ?s1 ''reddit'') = Inr posts"
    using assms(2) by (simp only: get)
  from sync_reddit_result [OF this] sync_youtube_result [OF assms(1)]
  show ?thesis
    by (simp add: sync_now_def Let_def get)
qed

text \<open>
  The stale gate when the YouTube fetcher returns (or has no client): each provider with a
  truthy client entry is fetched once, YouTube first, its list is replaced by the result,
  and \<open>last_sync_time\<close> becomes the time of the call. The Reddit fetcher always returns, see
  \<open>fetch_reddit_never_raises\<close>.
\<close>

lemma sync_content_stale:
  assumes "s ''last_sync_time'' = Some previous" and "num_of previous = Some t"
    and "s ''sync_interval'' = Some interval" and "num_of interval = Some d"
    and "d \<le> time_now rt - t"
    and "\<not> truthy (session_get s ''youtube_api'')
         \<or> fetch_youtube_saved_videos rt (session_get s ''youtube_api'') = Inr videos"
    and "fetch_reddit_saved_posts rt (session_get s ''reddit'') = Inr posts"
  shows "sync_content rt s =
           (Inr (),
            (let s1 = (if truthy (session_get s ''youtube_api'')
                       then s(''youtube_videos'' \<mapsto> PList videos) else s);
                 s2 = (if truthy (session_get s ''reddit'')
                       then s1(''reddit_posts'' \<mapsto> PList posts) else s1)
             in s2(''last_sync_time'' \<mapsto> PFloat (time_now rt))),
            (if truthy (session_get s ''youtube_api'') then [Fetch_youtube] else [])
            @ (if truthy (session_get s ''reddit'') then [Fetch_reddit] else []))"
proof -
  have "stale rt s = Inr True"
    using assms(1-5) by (simp add: stale_eval)
  then have "sync_content rt s = sync_now rt s"
    by (simp add: sync_content_def)
  then show ?thesis
    by (simp only: sync_now_result [OF assms(6,7)])
qed

text \<open>An exception of the YouTube fetcher leaves \<open>sync_content\<close> at once: the session is
  as before and the Reddit fetcher is not called.\<close>

lemma sync_content_youtube_raises:
  assumes "s ''last_sync_time'' = Some previous" and "num_of previous = Some t"
    and "s ''sync_interval'' = Some interval" and "num_of interval = Some d"
    and "d \<le> time_now rt - t"
    and "truthy (session_get s ''youtube_api'')"
    and "fetch_youtube_saved_videos rt (session_get s ''youtube_api'') = Inl e"
  shows "sync_content rt s = (Inl e, s, [Fetch_youtube])"
proof -
  have "stale rt s = Inr True"
    using assms(1-5) by (simp add: stale_eval)
  then show ?thesis
    using assms(6,7) by (simp add: sync_content_def sync_now_def sync_youtube_def session_item_truthy)
qed

section \<open>The fetchers and errors of the providers\<close>

lemma fetch_reddit_never_raises: "\<exists>posts. fetch_reddit_saved_posts rt reddit = Inr posts"
  by (simp add: fetch_reddit_saved_posts_def split: sum.split)

lemma fetch_reddit_error: "reddit_try rt reddit = Inl e \<Longrightarrow> fetch_reddit_saved_posts rt reddit = Inr []"
  by (simp add: fetch_reddit_saved_posts_def)

lemma fetch_youtube_http_error:
  "youtube_try rt youtube_api = Inl (HttpError m) \<Longrightarrow> fetch_youtube_saved_videos rt youtube_api = Inr []"
  by (simp add: fetch_youtube_saved_videos_def)

lemma fetch_youtube_other_error:
  "youtube_try rt youtube_api = Inl e \<Longrightarrow> (\<And>m. e \<noteq> HttpError m) \<Longrightarrow>
     fetch_youtube_saved_videos rt youtube_api = Inl e"
  by (cases e) (auto simp add: fetch_youtube_saved_videos_def)

text \<open>
  Claim C1: on every provider-side error during a fetch (a transport error, a malformed
  response, a field missing in an item) each of the two fetchers returns the empty list and
  raises nothing to its caller.

  \<open>fetch_reddit_saved_posts\<close> does so (\<open>fetch_reddit_never_raises\<close>, \<open>fetch_reddit_error\<close>),
  and \<open>fetch_youtube_saved_videos\<close> does so for an \<open>HttpError\<close>
  (\<open>fetch_youtube_http_error\<close>). But its handler catches \<open>HttpError\<close> only: at a response
  whose second item has no \<open>thumbnails\<close> the \<open>KeyError\<close> leaves the function, a response
  whose \<open>items\<close> is \<open>null\<close> gives a \<open>TypeError\<close>, and an exception of the transport, which is
  not an \<open>HttpError\<close>, leaves it too.
\<close>

theorem fetch_youtube_propagates_errors:
  "fetch_youtube_saved_videos (youtube_answers (Inr missing_thumbnail_response)) youtube_client
     = Inl (KeyError ''thumbnails'')
   \<and> fetch_youtube_saved_videos (youtube_answers (Inr (PDict [(''items'', PNone)]))) youtube_client
     = Inl TypeError
   \<and> fetch_youtube_saved_videos (youtube_answers (Inl (OtherError ''ServerNotFoundError''))) youtube_client
     = Inl (OtherError ''ServerNotFoundError'')"
  by (simp add: value_defs fetch_defs youtube_answers_def example_runtime_def
      missing_thumbnail_response_def video_item_def bare_video_item_def youtube_client_def)

section \<open>Logout\<close>

text \<open>
  \<open>sync_content\<close> writes the two lists and \<open>last_sync_time\<close> only. The key
  \<open>reddit_access_token\<close> is written by \<open>init_session\<close> alone, which puts \<open>None\<close> there when
  the key is missing: read with \<open>session.get\<close> it is the same after each of the handlers
  below as before (the routes \<open>youtube_login\<close> and \<open>reddit_login\<close> assign \<open>oauth_state\<close> and
  \<open>oauth_flow\<close> only).
\<close>

lemma sync_content_frame:
  assumes "k \<noteq> ''youtube_videos''" and "k \<noteq> ''reddit_posts''" and "k \<noteq> ''last_sync_time''"
  shows "fst (snd (sync_content rt s)) k = s k"
  using assms
  by (simp add: sync_content_def sync_now_def sync_youtube_def sync_reddit_def
      split: sum.split prod.split)

lemma setdefault_get:
  "session_get (setdefault k v s) k' = (if k' = k \<and> s k = None then v else session_get s k')"
  by (simp add: setdefault_def session_get_def)

lemma setdefault_other: "k' \<noteq> k \<Longrightarrow> setdefault k v s k' = s k'"
  by (simp add: setdefault_def)

lemma init_session_get:
  "session_get (init_session s) ''reddit_access_token'' = session_get s ''reddit_access_token''"
  by (simp add: init_session_def setdefault_get setdefault_other) (simp add: session_get_def)

lemma sync_content_token:
  "sync_content rt s = (r, s', tr) \<Longrightarrow>
     session_get s' ''reddit_access_token'' = session_get s ''reddit_access_token''"
  using sync_content_frame [of "''reddit_access_token''" rt s]
  by (simp add: session_get_def)

lemma index_token:
  "session_get (fst (snd (index rt s))) ''reddit_access_token'' = session_get s ''reddit_access_token''"
proof -
  obtain r s1 tr where sc: "sync_content rt (init_session s) = (r, s1, tr)"
    by (cases "sync_content rt (init_session s)")
  from sync_content_token [OF sc]
  have "session_get s1 ''reddit_access_token'' = session_get s ''reddit_access_token''"
    by (simp add: init_session_get)
  with sc show ?thesis
    by (cases r) (simp_all add: index_def)
qed

lemma youtube_callback_try_token:
  "session_get (fst (snd (youtube_callback_try rt code s))) ''reddit_access_token''
     = session_get s ''reddit_access_token''"
proof (cases "youtube_fetch_token rt code")
  case (Inl e)
  then show ?thesis by (simp add: youtube_callback_try_def)
next
  case token: (Inr credentials)
  show ?thesis
  proof (cases "youtube_build rt")
    case (Inl e)
    with token show ?thesis by (simp add: youtube_callback_try_def)
  next
    case (Inr youtube_api)
    let ?s = "s(''youtube_credentials'' \<mapsto> PStr credentials, ''youtube_api'' \<mapsto> youtube_api)"
    obtain r s1 tr where sc: "sync_content rt ?s = (r, s1, tr)"
      by (cases "sync_content rt ?s")
    from sync_content_token [OF sc]
    have "session_get s1 ''reddit_access_token'' = session_get s ''reddit_access_token''"
      by simp
    with sc token Inr show ?thesis
      by (cases r) (simp_all add: youtube_callback_try_def)
  qed
qed

lemma youtube_callback_token:
  "session_get (fst (snd (youtube_callback rt args s))) ''reddit_access_token''
     = session_get s ''reddit_access_token''"
proof -
  have "session_get (fst (snd (case youtube_callback_try rt code s of
            (r, s1, tr) \<Rightarrow> (r, s1, Temp_file_created name # tr @ [Temp_file_deleted name]))))
          ''reddit_access_token'' = session_get s ''reddit_access_token''" for code name
    using youtube_callback_try_token [of rt code s]
    by (cases "youtube_callback_try rt code s") simp
  then show ?thesis
    by (simp add: youtube_callback_def split: option.split sum.split)
qed

lemma reddit_callback_token:
  "session_get (fst (snd (reddit_callback rt args s))) ''reddit_access_token''
     = session_get s ''reddit_access_token''"
proof (cases "args ''code''")
  case None
  then show ?thesis by (simp add: reddit_callback_def)
next
  case (Some code)
  show ?thesis
  proof (cases "reddit_authorize rt code")
    case (Inl e)
    with Some show ?thesis by (simp add: reddit_callback_def reddit_callback_try_def)
  next
    case (Inr entries)
    let ?s = "s(''reddit'' \<mapsto> PDict entries)"
    obtain r s1 tr where sc: "sync_content rt ?s = (r, s1, tr)"
      by (cases "sync_content rt ?s")
    from sync_content_token [OF sc]
    have "session_get s1 ''reddit_access_token'' = session_get s ''reddit_access_token''"
      by simp
    with sc Some Inr show ?thesis
      by (cases r) (simp_all add: reddit_callback_def reddit_callback_try_def)
  qed
qed

lemma sync_token:
  "session_get (fst (snd (sync rt s))) ''reddit_access_token'' = session_get s ''reddit_access_token''"
proof -
  let ?s = "s(''last_sync_time'' \<mapsto> PInt 0)"
  obtain r s1 tr where sc: "sync_content rt ?s = (r, s1, tr)"
    by (cases "sync_content rt ?s")
  from sync_content_token [OF sc]
  have "session_get s1 ''reddit_access_token'' = session_get s ''reddit_access_token''"
    by simp
  with sc show ?thesis
    by (cases r) (simp_all add: sync_def)
qed

text \<open>
  Claim C2: for every session, the logout of one provider clears that provider's
  credential, client handle and cached item list and nothing else; every session entry of
  the other provider is the same before and after.

  For YouTube the three are the keys \<open>youtube_credentials\<close>, \<open>youtube_api\<close> and
  \<open>youtube_videos\<close>. For Reddit the callback stores the authorized client, which holds the
  token, under the one key \<open>reddit\<close>, and the posts under \<open>reddit_posts\<close>; the key
  \<open>reddit_access_token\<close> never holds a token. Every key outside the cleared ones keeps its
  entry, so does every key of the other provider.
\<close>

theorem logout_clears_own_provider:
  "(case logout_youtube s of
      (r, s', tr) \<Rightarrow>
        s' ''youtube_credentials'' = Some PNone \<and> s' ''youtube_api'' = Some PNone
        \<and> s' ''youtube_videos'' = Some (PList [])
        \<and> (\<forall>k. k \<notin> {''youtube_credentials'', ''youtube_api'', ''youtube_videos''} \<longrightarrow> s' k = s k))
   \<and> (case logout_reddit s of
      (r, s', tr) \<Rightarrow>
        s' ''reddit'' = Some PNone \<and> s' ''reddit_posts'' = Some (PList [])
        \<and> (\<forall>k. k \<notin> {''reddit'', ''reddit_posts''} \<longrightarrow> s' k = s k))"
  by (simp add: logout_youtube_def logout_reddit_def)

theorem logout_clears_own_provider_witness:
  "''reddit'' \<notin> {''youtube_credentials'', ''youtube_api'', ''youtube_videos''}
   \<and> fst (snd (logout_youtube both_session)) ''reddit'' = Some (PDict [(''config'', PNone)])
   \<and> fst (snd (logout_youtube both_session)) ''youtube_api'' = Some PNone
   \<and> ''youtube_api'' \<notin> {''reddit'', ''reddit_posts''}
   \<and> fst (snd (logout_reddit both_session)) ''youtube_api'' = Some (PObj ''Resource'' [])
   \<and> fst (snd (logout_reddit both_session)) ''reddit'' = Some PNone"
  using logout_clears_own_provider [of both_session]
  by (simp add: logout_youtube_def logout_reddit_def both_session_keys)

section \<open>The sync gate\<close>

text \<open>
  Claim C3: when \<open>sync_content\<close> is called at time \<open>now\<close> with
  \<open>now - last_sync_time < sync_interval\<close>, the two cached lists and \<open>last_sync_time\<close> are
  unchanged and no fetch is attempted: the whole session is as before and no fetcher is
  called.
\<close>

theorem sync_content_fresh:
  assumes "s ''last_sync_time'' = Some previous" and "num_of previous = Some t"
    and "s ''sync_interval'' = Some interval" and "num_of interval = Some d"
    and "time_now rt - t < d"
  shows "sync_content rt s = (Inr (), s, [])"
  using assms by (simp add: sync_content_def stale_eval)

theorem sync_content_fresh_witness:
  "both_session ''last_sync_time'' = Some (PFloat 900) \<and> num_of (PFloat 900) = Some 900
   \<and> both_session ''sync_interval'' = Some (PInt 60) \<and> num_of (PInt 60) = Some 60
   \<and> time_now soon_runtime - 900 < (60::real)
   \<and> sync_content soon_runtime both_session = (Inr (), both_session, [])"
  using sync_content_fresh [of both_session "PFloat 900" 900 "PInt 60" 60 soon_runtime]
  by (simp add: both_session_keys soon_runtime_def example_runtime_def)

text \<open>
  Claim C4: when \<open>sync_content\<close> is called at time \<open>now\<close> with
  \<open>now - last_sync_time >= sync_interval\<close>, each provider with an active client handle is
  fetched exactly once, independently of the other, its cached list is overwritten with
  the result, and \<open>last_sync_time\<close> is set to \<open>now\<close>.

  This is what the code does whenever the YouTube fetcher returns (\<open>sync_content_stale\<close>).
  When that fetcher raises, which it does on every error but an \<open>HttpError\<close>
  (\<open>sync_content_youtube_raises\<close>), the call ends there. At a session with both clients,
  synced last at 900 and called at 1000, with a YouTube response in which one item has no
  thumbnails: the \<open>KeyError\<close> leaves \<open>sync_content\<close>, the Reddit fetcher is not called and
  \<open>last_sync_time\<close> stays 900.
\<close>

theorem sync_content_stops_at_youtube_error:
  "truthy (session_get both_session ''youtube_api'') \<and> truthy (session_get both_session ''reddit'')
   \<and> stale (youtube_answers (Inr missing_thumbnail_response)) both_session = Inr True
   \<and> sync_content (youtube_answers (Inr missing_thumbnail_response)) both_session
     = (Inl (KeyError ''thumbnails''), both_session, [Fetch_youtube])"
proof -
  let ?rt = "youtube_answers (Inr missing_thumbnail_response)"
  have now: "time_now ?rt = 1000"
    by (simp add: youtube_answers_def example_runtime_def)
  have st: "stale ?rt both_session = Inr True"
    by (simp add: stale_eval [of both_session "PFloat 900" 900 "PInt 60" 60] both_session_keys now)
  have yt: "session_get both_session ''youtube_api'' = PObj ''Resource'' []"
    and rd: "session_get both_session ''reddit'' = PDict [(''config'', PNone)]"
    by (simp_all add: session_get_def both_session_keys)
  have f: "fetch_youtube_saved_videos ?rt (PObj ''Resource'' []) = Inl (KeyError ''thumbnails'')"
    by (simp add: value_defs fetch_defs youtube_answers_def example_runtime_def
        missing_thumbnail_response_def video_item_def bare_video_item_def)
  have "sync_content ?rt both_session = (Inl (KeyError ''thumbnails''), both_session, [Fetch_youtube])"
    by (rule sync_content_youtube_raises [of both_session "PFloat 900" 900 "PInt 60" 60])
       (simp_all add: both_session_keys now yt f)
  with st yt rd show ?thesis
    by simp
qed

text \<open>
  The route \<open>/sync\<close> when the YouTube fetcher returns (or has no client) and the clock is
  past the first interval: \<open>last_sync_time\<close> is set to zero, the gate is stale whatever the
  entry was before, each provider with a truthy client entry is fetched once and
  \<open>last_sync_time\<close> ends as the time of the call.
\<close>

lemma sync_forces_fetch:
  assumes "s ''sync_interval'' = Some interval" and "num_of interval = Some d"
    and "d \<le> time_now rt"
    and "\<not> truthy (session_get s ''youtube_api'')
         \<or> fetch_youtube_saved_videos rt (session_get s ''youtube_api'') = Inr videos"
    and "fetch_reddit_saved_posts rt (session_get s ''reddit'') = Inr posts"
  shows "sync rt s =
           (Inr (Redirect ''index''),
            (let s0 = s(''last_sync_time'' \<mapsto> PInt 0);
                 s1 = (if truthy (session_get s ''youtube_api'')
                       then s0(''youtube_videos'' \<mapsto> PList videos) else s0);
                 s2 = (if truthy (session_get s ''reddit'')
                       then s1(''reddit_posts'' \<mapsto> PList posts) else s1)
             in s2(''last_sync_time'' \<mapsto> PFloat (time_now rt))),
            (if truthy (session_get s ''youtube_api'') then [Fetch_youtube] else [])
            @ (if truthy (session_get s ''reddit'') then [Fetch_reddit] else []))"
proof -
  let ?s0 = "s(''last_sync_time'' \<mapsto> PInt 0)"
  have yt: "session_get ?s0 ''youtube_api'' = session_get s ''youtube_api''"
    and rd: "session_get ?s0 ''reddit'' = session_get s ''reddit''"
    by simp_all
  have "sync_content rt ?s0 =
           (Inr (),
            (let s1 = (if truthy (session_get ?s0 ''youtube_api'')
                       then ?s0(''youtube_videos'' \<mapsto> PList videos) else ?s0);
                 s2 = (if truthy (session_get ?s0 ''reddit'')
                       then s1(''reddit_posts'' \<mapsto> PList posts) else s1)
             in s2(''last_sync_time'' \<mapsto> PFloat (time_now rt))),
            (if truthy (session_get ?s0 ''youtube_api'') then [Fetch_youtube] else [])
            @ (if truthy (session_get ?s0 ''reddit'') then [Fetch_reddit] else []))"
  proof (rule sync_content_stale [where previous = "PInt 0" and t = 0 and interval = interval and d = d])
    show "?s0 ''last_sync_time'' = Some (PInt 0)" by simp
    show "num_of (PInt 0) = Some 0" by simp
    show "?s0 ''sync_interval'' = Some interval" using assms(1) by simp
    show "num_of interval = Some d" by (rule assms(2))
    show "d \<le> time_now rt - 0" using assms(3) by simp
    show "\<not> truthy (session_get ?s0 ''youtube_api'')
         \<or> fetch_youtube_saved_videos rt (session_get ?s0 ''youtube_api'') = Inr videos"
      using assms(4) by (simp only: yt)
    show "fetch_reddit_saved_posts rt (session_get ?s0 ''reddit'') = Inr posts"
      using assms(5) by (simp only: rd)
  qed
  then show ?thesis
    by (simp add: sync_def Let_def)
qed

text \<open>
  Claim C5: for every session and every time of the call, the route \<open>/sync\<close> sets
  \<open>last_sync_time\<close> to zero before the gate is evaluated and so always triggers a fetch
  attempt for each authenticated provider, whatever time has passed since the last sync.

  The reset is made and the gate is stale, but the fetch attempts end with the first
  exception of the YouTube fetcher. At a session with both clients, called at time 1000
  with a YouTube response in which one item has no thumbnails: the \<open>KeyError\<close> leaves
  \<open>sync\<close>, the Reddit fetcher is not called although the Reddit entry is truthy, and
  \<open>last_sync_time\<close> stays at the zero of the reset.
\<close>

theorem sync_stops_at_youtube_error:
  "truthy (session_get both_session ''youtube_api'') \<and> truthy (session_get both_session ''reddit'')
   \<and> time_now (youtube_answers (Inr missing_thumbnail_response)) = 1000
   \<and> sync (youtube_answers (Inr missing_thumbnail_response)) both_session
     = (Inl (KeyError ''thumbnails''), both_session(''last_sync_time'' \<mapsto> PInt 0), [Fetch_youtube])"
proof -
  let ?rt = "youtube_answers (Inr missing_thumbnail_response)"
  let ?s0 = "both_session(''last_sync_time'' \<mapsto> PInt 0)"
  have now: "time_now ?rt = 1000"
    by (simp add: youtube_answers_def example_runtime_def)
  have yt: "session_get both_session ''youtube_api'' = PObj ''Resource'' []"
    and rd: "session_get both_session ''reddit'' = PDict [(''config'', PNone)]"
    by (simp_all add: session_get_def both_session_keys)
  have f: "fetch_youtube_saved_videos ?rt (PObj ''Resource'' []) = Inl (KeyError ''thumbnails'')"
    by (simp add: value_defs fetch_defs youtube_answers_def example_runtime_def
        missing_thumbnail_response_def video_item_def bare_video_item_def)
  have "sync_content ?rt ?s0 = (Inl (KeyError ''thumbnails''), ?s0, [Fetch_youtube])"
    by (rule sync_content_youtube_raises [of ?s0 "PInt 0" 0 "PInt 60" 60])
       (simp_all add: both_session_keys now yt f)
  then have "sync ?rt both_session = (Inl (KeyError ''thumbnails''), ?s0, [Fetch_youtube])"
    by (simp add: sync_def)
  with now yt rd show ?thesis
    by simp
qed

text \<open>
  Claim C10: when neither provider has an active client handle and the gate is stale
  (\<open>now - last_sync_time >= sync_interval\<close>), \<open>sync_content\<close> still sets \<open>last_sync_time\<close>
  to \<open>now\<close>, leaves both cached lists as they are and calls no fetcher; so a request to the
  landing route by a visitor who is not logged in (\<open>s0\<close> is the session before
  \<open>init_session\<close>) uses up the sync window and is redirected to the login page.
\<close>

theorem sync_content_unauthenticated:
  assumes "s ''last_sync_time'' = Some previous" and "num_of previous = Some t"
    and "s ''sync_interval'' = Some interval" and "num_of interval = Some d"
    and "d \<le> time_now rt - t"
    and "\<not> truthy (session_get s ''youtube_api'')"
    and "\<not> truthy (session_get s ''reddit'')"
  shows "sync_content rt s = (Inr (), s(''last_sync_time'' \<mapsto> PFloat (time_now rt)), [])
         \<and> (\<forall>s0. init_session s0 = s \<and> \<not> truthy (session_get s ''youtube_credentials'')
               \<longrightarrow> index rt s0 =
                     (Inr (Redirect ''login''), s(''last_sync_time'' \<mapsto> PFloat (time_now rt)), []))"
proof -
  have "stale rt s = Inr True"
    using assms(1-5) by (simp add: stale_eval)
  then have sc: "sync_content rt s = (Inr (), s(''last_sync_time'' \<mapsto> PFloat (time_now rt)), [])"
    using assms(6,7) by (simp add: sync_content_def sync_now_def sync_youtube_def sync_reddit_def)
  show ?thesis
    using sc assms(7) by (simp add: index_def)
qed

theorem sync_content_unauthenticated_witness:
  "new_session ''last_sync_time'' = Some (PInt 0) \<and> num_of (PInt 0) = Some 0
   \<and> new_session ''sync_interval'' = Some (PInt 60) \<and> num_of (PInt 60) = Some 60
   \<and> 60 \<le> time_now example_runtime - 0
   \<and> \<not> truthy (session_get new_session ''youtube_api'')
   \<and> \<not> truthy (session_get new_session ''reddit'')
   \<and> init_session Map.empty = new_session
   \<and> \<not> truthy (session_get new_session ''youtube_credentials'')
   \<and> sync_content example_runtime new_session =
        (Inr (), new_session(''last_sync_time'' \<mapsto> PFloat (time_now example_runtime)), [])
   \<and> index example_runtime Map.empty =
        (Inr (Redirect ''login''),
         new_session(''last_sync_time'' \<mapsto> PFloat (time_now example_runtime)), [])"
proof -
  have h1: "new_session ''last_sync_time'' = Some (PInt 0)"
    and h3: "new_session ''sync_interval'' = Some (PInt 60)"
    and h6: "\<not> truthy (session_get new_session ''youtube_api'')"
    and h7: "\<not> truthy (session_get new_session ''reddit'')"
    and h9: "\<not> truthy (session_get new_session ''youtube_credentials'')"
    by (simp_all add: new_session_eq session_get_def)
  have h2: "num_of (PInt 0) = Some 0" and h4: "num_of (PInt 60) = Some 60"
    by simp_all
  have h5: "60 \<le> time_now example_runtime - 0"
    by (simp add: example_runtime_def)
  have h8: "init_session Map.empty = new_session"
    by (simp add: new_session_def)
  note th = sync_content_unauthenticated [OF h1 h2 h3 h4 h5 h6 h7]
  from th have "index example_runtime Map.empty =
        (Inr (Redirect ''login''),
         new_session(''last_sync_time'' \<mapsto> PFloat (time_now example_runtime)), [])"
    using h8 h9 by blast
  with th h1 h2 h3 h4 h5 h6 h7 h8 h9 show ?thesis
    by blast
qed

section \<open>The callbacks\<close>

text \<open>
  Claim C6: a request to the YouTube callback whose query lacks \<open>code\<close> or \<open>state\<close> is
  answered with status 400 and a body that contains "Missing code or state parameter"; the
  session, and with it \<open>oauth_state\<close>, is unchanged, and nothing outside is called.
\<close>

theorem youtube_callback_missing_parameter:
  assumes "args ''code'' = None \<or> args ''state'' = None"
  shows "youtube_callback rt args s =
           (Inr (Plain (''Error: '' @ ''Missing code or state parameter'') 400), s, [])"
  using assms by (auto simp add: youtube_callback_def split: option.split)

theorem youtube_callback_missing_parameter_witness:
  "([''state'' \<mapsto> ''abc''] ''code'' = None \<or> [''state'' \<mapsto> ''abc''] ''state'' = None)
   \<and> youtube_callback example_runtime [''state'' \<mapsto> ''abc''] both_session =
        (Inr (Plain ''Error: Missing code or state parameter'' 400), both_session, [])"
  using youtube_callback_missing_parameter [of "[''state'' \<mapsto> ''abc'']" example_runtime both_session]
  by simp

text \<open>
  Claim C7: a request to the YouTube callback that carries \<open>code\<close> and \<open>state\<close>, while the
  stored \<open>oauth_state\<close> is absent (the key is missing or holds \<open>None\<close>) or differs from the
  supplied \<open>state\<close>, is answered with status 400 and a body that contains "OAuth state
  mismatch"; no token exchange is made and no credential is stored: the session is
  unchanged and nothing outside is called.
\<close>

theorem youtube_callback_state_mismatch:
  assumes "args ''code'' = Some code" and "args ''state'' = Some state"
    and "session_get s ''oauth_state'' = PNone \<or> session_get s ''oauth_state'' \<noteq> PStr state"
  shows "youtube_callback rt args s =
           (Inr (Plain (''Error: '' @ ''OAuth state mismatch'') 400), s, [])"
  using assms by (auto simp add: youtube_callback_def)

theorem youtube_callback_state_mismatch_witness:
  "[''code'' \<mapsto> ''xyz'', ''state'' \<mapsto> ''abd''] ''code'' = Some ''xyz''
   \<and> [''code'' \<mapsto> ''xyz'', ''state'' \<mapsto> ''abd''] ''state'' = Some ''abd''
   \<and> (session_get both_session ''oauth_state'' = PNone
        \<or> session_get both_session ''oauth_state'' \<noteq> PStr ''abd'')
   \<and> youtube_callback example_runtime [''code'' \<mapsto> ''xyz'', ''state'' \<mapsto> ''abd''] both_session =
        (Inr (Plain ''Error: OAuth state mismatch'' 400), both_session, [])"
  using youtube_callback_state_mismatch
    [of "[''code'' \<mapsto> ''xyz'', ''state'' \<mapsto> ''abd'']" "''xyz''" "''abd''" both_session example_runtime]
  by (simp add: session_get_def both_session_keys)

text \<open>
  Claim C8: a request to the Reddit callback with \<open>code\<close> present, for which the token
  exchange raises, is answered with status 400 and the plain string "Reddit login failed: "
  followed by the text of the exception; without \<open>code\<close> the answer is status 400 and no
  exchange is attempted.
\<close>

theorem reddit_callback_failure:
  "(args ''code'' = Some code \<and> reddit_authorize rt code = Inl e \<longrightarrow>
      reddit_callback rt args s =
        (Inr (Plain (''Reddit login failed: '' @ str_exception rt e) 400), s, [Reddit_exchange code]))
   \<and> (args ''code'' = None \<longrightarrow>
      reddit_callback rt args s = (Inr (Plain ''Error: Missing code parameter'' 400), s, []))"
  by (simp add: reddit_callback_def reddit_callback_try_def)

theorem reddit_callback_failure_witness:
  "[''code'' \<mapsto> ''xyz''] ''code'' = Some ''xyz''
   \<and> reddit_authorize failing_exchange_runtime ''xyz''
       = Inl (OtherError ''invalid_grant error processing request'')
   \<and> reddit_callback failing_exchange_runtime [''code'' \<mapsto> ''xyz''] new_session =
        (Inr (Plain ''Reddit login failed: invalid_grant error processing request'' 400),
         new_session, [Reddit_exchange ''xyz''])
   \<and> (Map.empty :: string \<rightharpoonup> string) ''code'' = None
   \<and> reddit_callback failing_exchange_runtime Map.empty new_session =
        (Inr (Plain ''Error: Missing code parameter'' 400), new_session, [])"
  using reddit_callback_failure
      [of "[''code'' \<mapsto> ''xyz'']" "''xyz''" failing_exchange_runtime
          "OtherError ''invalid_grant error processing request''" new_session]
    reddit_callback_failure
      [of Map.empty "''xyz''" failing_exchange_runtime
          "OtherError ''invalid_grant error processing request''" new_session]
  by (simp add: failing_exchange_runtime_def example_runtime_def exception_text_def)

section \<open>Number and order of the fetched records\<close>

text \<open>A loop that ends without an exception has appended one record per item (the Reddit
  loop: per item with a title), in the order of the items.\<close>

lemma youtube_loop_append:
  "youtube_loop rt items acc = Inr videos \<Longrightarrow>
     \<exists>new. videos = acc @ new \<and> map (youtube_video rt) items = map Inr new"
proof (induction items arbitrary: acc)
  case Nil
  then show ?case by simp
next
  case (Cons item items)
  then obtain v where v: "youtube_video rt item = Inr v"
    and rest: "youtube_loop rt items (acc @ [v]) = Inr videos"
    by (auto split: sum.splits)
  from Cons.IH [OF rest] obtain new where "videos = (acc @ [v]) @ new"
    and "map (youtube_video rt) items = map Inr new"
    by blast
  with v show ?case
    by (intro exI [of _ "v # new"]) simp
qed

lemma reddit_loop_append:
  "reddit_loop rt items acc = Inr posts \<Longrightarrow>
     \<exists>new. posts = acc @ new
       \<and> map (reddit_post rt) (filter (\<lambda>i. hasattr i ''title'') items) = map Inr new"
proof (induction items arbitrary: acc)
  case Nil
  then show ?case by simp
next
  case (Cons item items)
  show ?case
  proof (cases "hasattr item ''title''")
    case False
    with Cons.prems have "reddit_loop rt items acc = Inr posts" by simp
    from Cons.IH [OF this] False show ?thesis by simp
  next
    case True
    with Cons.prems obtain p where p: "reddit_post rt item = Inr p"
      and rest: "reddit_loop rt items (acc @ [p]) = Inr posts"
      by (auto split: sum.splits)
    from Cons.IH [OF rest] obtain new where "posts = (acc @ [p]) @ new"
      and "map (reddit_post rt) (filter (\<lambda>i. hasattr i ''title'') items) = map Inr new"
      by blast
    with p True show ?thesis
      by (intro exI [of _ "p # new"]) simp
  qed
qed

text \<open>The YouTube loop raises \<open>KeyError\<close> or \<open>TypeError\<close>, never the exception the handler
  catches.\<close>

lemma getitem_error: "getitem v k = Inl e \<Longrightarrow> e = KeyError k \<or> e = TypeError"
  by (auto simp add: getitem_def split: pyval.splits option.splits)

lemma youtube_video_error: "youtube_video rt item \<noteq> Inl (HttpError m)"
  by (auto simp add: youtube_video_def and_then_def split: sum.splits dest: getitem_error)

lemma youtube_loop_error: "youtube_loop rt items acc \<noteq> Inl (HttpError m)"
  by (induction items arbitrary: acc) (auto simp add: youtube_video_error split: sum.splits)

text \<open>A record is built from a dictionary only, and a loop over items that all have a
  record returns these records.\<close>

lemma youtube_video_needs_dict: "youtube_video rt item = Inr v \<Longrightarrow> \<exists>kvs. item = PDict kvs"
  by (cases item) (simp_all add: youtube_video_def getitem_def)

lemma youtube_loop_dicts:
  "youtube_loop rt items acc = Inr videos \<Longrightarrow> item \<in> set items \<Longrightarrow> \<exists>kvs. item = PDict kvs"
proof (induction items arbitrary: acc)
  case Nil
  then show ?case by simp
next
  case (Cons x xs)
  from Cons.prems(1) obtain v where v: "youtube_video rt x = Inr v"
    and rest: "youtube_loop rt xs (acc @ [v]) = Inr videos"
    by (auto split: sum.splits)
  show ?case
  proof (cases "item = x")
    case True
    with v show ?thesis by (simp add: youtube_video_needs_dict)
  next
    case False
    with Cons.prems(2) have "item \<in> set xs" by simp
    from Cons.IH [OF rest this] show ?thesis .
  qed
qed

lemma fetch_youtube_result:
  assumes "fetch_youtube_saved_videos rt api = Inr videos"
  shows "(\<exists>m. youtube_items rt api = Inl (HttpError m)) \<and> videos = []
         \<or> (\<exists>items. youtube_items rt api = Inr items \<and> youtube_loop rt items [] = Inr videos)"
proof (cases "youtube_items rt api")
  case (Inl e)
  with assms show ?thesis
    by (cases e) (simp_all add: fetch_youtube_saved_videos_def youtube_try_def)
next
  case (Inr items)
  have "youtube_loop rt items [] = Inr videos"
  proof (cases "youtube_loop rt items []")
    case (Inl x)
    have "x \<noteq> HttpError m" for m
      using youtube_loop_error [of rt items "[]" m] Inl by simp
    with Inr Inl have "fetch_youtube_saved_videos rt api = Inl x"
      by (cases x) (auto simp add: fetch_youtube_saved_videos_def youtube_try_def)
    with assms show ?thesis by simp
  next
    case right: (Inr vs)
    with assms Inr show ?thesis
      by (simp add: fetch_youtube_saved_videos_def youtube_try_def)
  qed
  with Inr show ?thesis by simp
qed

lemma youtube_items_within_limit:
  assumes limit: "\<And>n kvs xs. youtube_videos_list rt n = Inr (PDict kvs) \<Longrightarrow>
            map_of kvs ''items'' = Some (PList xs) \<Longrightarrow> length xs \<le> n"
    and items: "youtube_items rt api = Inr items"
    and dicts: "\<And>item. item \<in> set items \<Longrightarrow> \<exists>kvs. item = PDict kvs"
  shows "length items \<le> 10"
proof -
  from items obtain r where r: "youtube_request rt api = Inr r"
    and it: "and_then (dict_get r ''items'' (PList [])) iterate = Inr items"
    by (cases "youtube_request rt api") (simp_all add: youtube_items_def)
  from r have list: "youtube_videos_list rt 10 = Inr r"
    by (cases api) (simp_all add: youtube_request_def split: if_splits)
  from it obtain kvs where kvs: "r = PDict kvs"
    by (cases r) (simp_all add: dict_get_def)
  show ?thesis
  proof (cases "map_of kvs ''items''")
    case None
    with it kvs show ?thesis by (simp add: dict_get_def iterate_def)
  next
    case (Some v)
    with it kvs have iv: "iterate v = Inr items" by (simp add: dict_get_def)
    show ?thesis
    proof (cases v)
      case (PList xs)
      with iv have "items = xs" by (simp add: iterate_def)
      with limit [OF list [unfolded kvs]] Some PList show ?thesis by simp
    next
      case (PDict es)
      with iv have "items = map (\<lambda>kv. PStr (fst kv)) es" by (simp add: iterate_def)
      with dicts have "es = []" by (cases es) auto
      with \<open>items = map (\<lambda>kv. PStr (fst kv)) es\<close> show ?thesis by simp
    next
      case (PStr s)
      with iv have "items = map (\<lambda>c. PStr [c]) s" by (simp add: iterate_def)
      with dicts have "s = []" by (cases s) auto
      with \<open>items = map (\<lambda>c. PStr [c]) s\<close> show ?thesis by simp
    qed (use iv in \<open>simp_all add: iterate_def\<close>)
  qed
qed


lemma youtube_loop_complete:
  "map (youtube_video rt) items = map Inr videos \<Longrightarrow> youtube_loop rt items acc = Inr (acc @ videos)"
proof (induction items arbitrary: acc videos)
  case Nil
  then show ?case by simp
next
  case (Cons item items)
  then obtain v vs where "videos = v # vs" and "youtube_video rt item = Inr v"
    and "map (youtube_video rt) items = map Inr vs"
    by (cases videos) auto
  with Cons.IH [of vs "acc @ [v]"] show ?case by simp
qed

lemma reddit_loop_complete:
  "map (reddit_post rt) (filter (\<lambda>i. hasattr i ''title'') items) = map Inr posts \<Longrightarrow>
     reddit_loop rt items acc = Inr (acc @ posts)"
proof (induction items arbitrary: acc posts)
  case Nil
  then show ?case by simp
next
  case (Cons item items)
  show ?case
  proof (cases "hasattr item ''title''")
    case False
    with Cons.prems Cons.IH [of posts acc] show ?thesis by simp
  next
    case True
    with Cons.prems obtain p ps where "posts = p # ps" and "reddit_post rt item = Inr p"
      and "map (reddit_post rt) (filter (\<lambda>i. hasattr i ''title'') items) = map Inr ps"
      by (cases posts) auto
    with True Cons.IH [of ps "acc @ [p]"] show ?thesis by simp
  qed
qed

lemma reddit_items_within_limit:
  assumes limit: "\<And>n saved. reddit_saved rt n = Inr saved \<Longrightarrow> length saved \<le> n"
    and items: "reddit_items rt reddit = Inr saved"
  shows "length saved \<le> 10"
proof -
  from items have "reddit_saved rt 10 = Inr saved"
    by (cases reddit) (simp_all add: reddit_items_def split: if_splits)
  from limit [OF this] show ?thesis .
qed

lemma fetch_reddit_result:
  assumes "fetch_reddit_saved_posts rt reddit = Inr posts"
  shows "(\<exists>e. reddit_try rt reddit = Inl e) \<and> posts = []
         \<or> (\<exists>saved. reddit_items rt reddit = Inr saved \<and> reddit_loop rt saved [] = Inr posts)"
proof (cases "reddit_try rt reddit")
  case (Inl e)
  with assms show ?thesis by (simp add: fetch_reddit_saved_posts_def)
next
  case (Inr ps)
  with assms have ps: "reddit_try rt reddit = Inr posts"
    by (simp add: fetch_reddit_saved_posts_def)
  then obtain saved where "reddit_items rt reddit = Inr saved"
    and "reddit_loop rt saved [] = Inr posts"
    by (cases "reddit_items rt reddit") (simp_all add: reddit_try_def)
  then show ?thesis by blast
qed

text \<open>
  Claim C9: every call of either fetcher returns at most 10 normalized records, and they
  appear in the order of the provider's response.

  Each fetcher asks its provider for at most 10 items (\<open>maxResults=10\<close>, \<open>limit=10\<close>: the
  first two conjuncts) and a provider answers a request for at most \<open>n\<close> items with at
  most \<open>n\<close> (the two hypotheses: the contract of \<open>videos.list\<close>, and the listing
  generator of praw, which stops after \<open>limit\<close> items). Then a result of the YouTube fetcher
  has at most 10 records and is either empty after a caught \<open>HttpError\<close> or holds the
  record of each item of the response, in order; a result of the Reddit fetcher has at most
  10 records and is either empty after a caught exception or holds the record of each item
  with a title, in order. Conversely, whenever every item (every item with a title) has a
  record, the fetcher returns exactly these records.
\<close>

theorem fetchers_return_at_most_ten_in_order:
  assumes yt_limit: "\<forall>n kvs xs. youtube_videos_list rt n = Inr (PDict kvs) \<longrightarrow>
            map_of kvs ''items'' = Some (PList xs) \<longrightarrow> length xs \<le> n"
    and rd_limit: "\<forall>n saved. reddit_saved rt n = Inr saved \<longrightarrow> length saved \<le> n"
  shows "youtube_request rt (PObj ''Resource'' attrs) = youtube_videos_list rt 10
    \<and> reddit_items rt (PObj ''Reddit'' attrs) = reddit_saved rt 10
    \<and> (fetch_youtube_saved_videos rt api = Inr videos \<longrightarrow>
          length videos \<le> 10
          \<and> ((\<exists>m. youtube_items rt api = Inl (HttpError m)) \<and> videos = []
               \<or> (\<exists>items. youtube_items rt api = Inr items
                     \<and> map (youtube_video rt) items = map Inr videos)))
    \<and> (youtube_items rt api = Inr items \<and> map (youtube_video rt) items = map Inr videos \<longrightarrow>
          fetch_youtube_saved_videos rt api = Inr videos)
    \<and> (fetch_reddit_saved_posts rt reddit = Inr posts \<longrightarrow>
          length posts \<le> 10
          \<and> ((\<exists>e. reddit_try rt reddit = Inl e) \<and> posts = []
               \<or> (\<exists>saved. reddit_items rt reddit = Inr saved
                     \<and> map (reddit_post rt) (filter (\<lambda>i. hasattr i ''title'') saved) = map Inr posts)))
    \<and> (reddit_items rt reddit = Inr saved
          \<and> map (reddit_post rt) (filter (\<lambda>i. hasattr i ''title'') saved) = map Inr posts \<longrightarrow>
          fetch_reddit_saved_posts rt reddit = Inr posts)"
proof (intro conjI impI)
  show "youtube_request rt (PObj ''Resource'' attrs) = youtube_videos_list rt 10"
    by (simp add: youtube_request_def)
  show "reddit_items rt (PObj ''Reddit'' attrs) = reddit_saved rt 10"
    by (simp add: reddit_items_def)
next
  assume f: "fetch_youtube_saved_videos rt api = Inr videos"
  from fetch_youtube_result [OF f]
  consider m where "youtube_items rt api = Inl (HttpError m)" and "videos = []"
    | its where "youtube_items rt api = Inr its" and "youtube_loop rt its [] = Inr videos"
    by blast
  then have "length videos \<le> 10
      \<and> ((\<exists>m. youtube_items rt api = Inl (HttpError m)) \<and> videos = []
           \<or> (\<exists>items. youtube_items rt api = Inr items
                 \<and> map (youtube_video rt) items = map Inr videos))"
  proof cases
    case 1
    then show ?thesis by simp
  next
    case 2
    from youtube_loop_append [OF 2(2)]
    have m: "map (youtube_video rt) its = map Inr videos" by simp
    from arg_cong [OF m, of length] have l: "length videos = length its" by simp
    have "length its \<le> 10"
      using yt_limit [rule_format] 2(1) youtube_loop_dicts [OF 2(2)]
      by (rule youtube_items_within_limit)
    with l m 2(1) show ?thesis by simp
  qed
  then show "length videos \<le> 10"
    and "(\<exists>m. youtube_items rt api = Inl (HttpError m)) \<and> videos = []
         \<or> (\<exists>items. youtube_items rt api = Inr items
               \<and> map (youtube_video rt) items = map Inr videos)"
    by simp_all
next
  assume "youtube_items rt api = Inr items \<and> map (youtube_video rt) items = map Inr videos"
  then show "fetch_youtube_saved_videos rt api = Inr videos"
    using youtube_loop_complete [of rt items videos "[]"]
    by (simp add: fetch_youtube_saved_videos_def youtube_try_def)
next
  assume f: "fetch_reddit_saved_posts rt reddit = Inr posts"
  from fetch_reddit_result [OF f]
  consider e where "reddit_try rt reddit = Inl e" and "posts = []"
    | sv where "reddit_items rt reddit = Inr sv" and "reddit_loop rt sv [] = Inr posts"
    by blast
  then have "length posts \<le> 10
      \<and> ((\<exists>e. reddit_try rt reddit = Inl e) \<and> posts = []
           \<or> (\<exists>saved. reddit_items rt reddit = Inr saved
                 \<and> map (reddit_post rt) (filter (\<lambda>i. hasattr i ''title'') saved) = map Inr posts))"
  proof cases
    case 1
    then show ?thesis by simp
  next
    case 2
    from reddit_loop_append [OF 2(2)]
    have m: "map (reddit_post rt) (filter (\<lambda>i. hasattr i ''title'') sv) = map Inr posts" by simp
    from arg_cong [OF m, of length]
    have "length posts = length (filter (\<lambda>i. hasattr i ''title'') sv)" by simp
    then have "length posts \<le> length sv" by simp
    moreover have "length sv \<le> 10"
      using rd_limit [rule_format] 2(1) by (rule reddit_items_within_limit)
    ultimately show ?thesis using m 2(1) by simp
  qed
  then show "length posts \<le> 10"
    and "(\<exists>e. reddit_try rt reddit = Inl e) \<and> posts = []
         \<or> (\<exists>saved. reddit_items rt reddit = Inr saved
               \<and> map (reddit_post rt) (filter (\<lambda>i. hasattr i ''title'') saved) = map Inr posts)"
    by simp_all
next
  assume "reddit_items rt reddit = Inr saved
          \<and> map (reddit_post rt) (filter (\<lambda>i. hasattr i ''title'') saved) = map Inr posts"
  then show "fetch_reddit_saved_posts rt reddit = Inr posts"
    using reddit_loop_complete [of rt saved posts "[]"]
    by (simp add: fetch_reddit_saved_posts_def reddit_try_def)
qed


theorem fetchers_return_at_most_ten_in_order_witness:
  "(\<forall>n. youtube_videos_list limited_runtime n
          = Inr (PDict [(''items'', PList (take n [video_item ''a'', video_item ''b'']))]))
   \<and> (\<forall>n. length (take n [video_item ''a'', video_item ''b'']) \<le> n)
   \<and> (\<forall>n. reddit_saved limited_runtime n = Inr (take n mixed_listing))
   \<and> (\<forall>n. length (take n mixed_listing) \<le> n)
   \<and> youtube_request limited_runtime youtube_client = youtube_videos_list limited_runtime 10
   \<and> reddit_items limited_runtime reddit_client = reddit_saved limited_runtime 10
   \<and> fetch_youtube_saved_videos limited_runtime youtube_client
       = Inr [video_record ''a'', video_record ''b'']
   \<and> length [video_record ''a'', video_record ''b''] \<le> 10
   \<and> youtube_items limited_runtime youtube_client = Inr [video_item ''a'', video_item ''b'']
   \<and> map (youtube_video limited_runtime) [video_item ''a'', video_item ''b'']
       = map Inr [video_record ''a'', video_record ''b'']
   \<and> fetch_reddit_saved_posts limited_runtime reddit_client
       = Inr [post_record ''a'', post_record ''b'']
   \<and> length [post_record ''a'', post_record ''b''] \<le> 10
   \<and> reddit_items limited_runtime reddit_client = Inr mixed_listing
   \<and> map (reddit_post limited_runtime) (filter (\<lambda>i. hasattr i ''title'') mixed_listing)
       = map Inr [post_record ''a'', post_record ''b'']"
proof -
  have yt: "youtube_videos_list limited_runtime n
          = Inr (PDict [(''items'', PList (take n [video_item ''a'', video_item ''b'']))])" for n
    by (simp add: limited_runtime_def example_runtime_def)
  have rd: "reddit_saved limited_runtime n = Inr (take n mixed_listing)" for n
    by (simp add: limited_runtime_def example_runtime_def)
  have p1: "\<forall>n kvs xs. youtube_videos_list limited_runtime n = Inr (PDict kvs) \<longrightarrow>
            map_of kvs ''items'' = Some (PList xs) \<longrightarrow> length xs \<le> n"
    by (auto simp add: yt)
  have p2: "\<forall>n saved. reddit_saved limited_runtime n = Inr saved \<longrightarrow> length saved \<le> n"
    by (auto simp add: rd)
  have items: "youtube_items limited_runtime youtube_client = Inr [video_item ''a'', video_item ''b'']"
    by (simp add: youtube_items_def youtube_request_def youtube_client_def yt dict_get_def iterate_def)
  have recs: "map (youtube_video limited_runtime) [video_item ''a'', video_item ''b'']
       = map Inr [video_record ''a'', video_record ''b'']"
    by (simp add: youtube_video_def getitem_def format_value_def video_item_def video_record_def)
  have saved: "reddit_items limited_runtime reddit_client = Inr mixed_listing"
    by (simp add: reddit_items_def reddit_client_def rd mixed_listing_def)
  have posts: "map (reddit_post limited_runtime) (filter (\<lambda>i. hasattr i ''title'') mixed_listing)
       = map Inr [post_record ''a'', post_record ''b'']"
    by (simp add: reddit_post_def hasattr_def getattr_def format_value_def mixed_listing_def
        submission_def comment_def post_record_def)
  note th = fetchers_return_at_most_ten_in_order
      [where rt = limited_runtime and attrs = "[]" and api = youtube_client
         and videos = "[video_record ''a'', video_record ''b'']"
         and items = "[video_item ''a'', video_item ''b'']" and reddit = reddit_client
         and posts = "[post_record ''a'', post_record ''b'']" and saved = mixed_listing,
       OF p1 p2]
  from th items recs
  have fy: "fetch_youtube_saved_videos limited_runtime youtube_client
       = Inr [video_record ''a'', video_record ''b'']"
    by blast
  from th saved posts
  have fr: "fetch_reddit_saved_posts limited_runtime reddit_client
       = Inr [post_record ''a'', post_record ''b'']"
    by blast
  from th have rq: "youtube_request limited_runtime youtube_client = youtube_videos_list limited_runtime 10"
    and ri: "reddit_items limited_runtime reddit_client = reddit_saved limited_runtime 10"
    by (simp_all add: youtube_client_def reddit_client_def)
  from th fy fr have ly: "length [video_record ''a'', video_record ''b''] \<le> 10"
    and lr: "length [post_record ''a'', post_record ''b''] \<le> 10"
    by blast+
  show ?thesis
    using yt rd rq ri fy ly items recs fr lr saved posts by simp
qed

end
